theory Spec2Isabelle
  imports Main
begin

section \<open>The test runtime of packages/jest-runtime/src/index.js\<close>

text \<open>
  The class \<open>Runtime\<close> is embedded as functions over a record of its fields. A method
  takes the runtime and returns a completion (a value, or the error it raised) together
  with the runtime as the method left it, so that what an exception leaves behind is
  visible. The collaborators the class calls but does not define (resolver, transformer,
  sandbox, mock library, host path functions, configuration) are the fields of the
  record \<open>deps\<close>, fixed during a run. The process-wide memo of module identifiers is a
  field of the runtime record. Code that runs inside the sandbox is data: a module
  wrapper is a list of statements over the arguments it is called with, a mock factory
  is a producer of a fixed value or of a new object. The field \<open>calls\<close> lists the wrappers
  and factories the runtime has invoked; no function reads it.
\<close>

subsection \<open>Values, objects and module records\<close>

datatype val =
    VUndefined
  | VNull
  | VBool bool
  | VNum int
  | VStr string
  | VRef nat       \<comment> \<open>reference to an object of the sandbox heap\<close>
  | VFacade nat    \<comment> \<open>reference to a per-file jest object\<close>
  | VHost string   \<comment> \<open>a value owned by the host's native loader\<close>

fun truthy :: "val \<Rightarrow> bool" where
  "truthy VUndefined = False"
| "truthy VNull = False"
| "truthy (VBool b) = b"
| "truthy (VNum n) = (n \<noteq> 0)"
| "truthy (VStr s) = (s \<noteq> [])"
| "truthy (VRef a) = True"
| "truthy (VFacade a) = True"
| "truthy (VHost h) = True"

type_synonym obj = "string \<rightharpoonup> val"

text \<open>What a zero-argument producer returns: a fixed value, or a new object literal.\<close>

datatype producer = Ret val | Fresh "(string \<times> val) list"

text \<open>The type \<open>Module\<close>; the optional fields are \<open>None\<close> until \<open>_execModule\<close> sets them.\<close>

record module_rec =
  filename :: string
  exports :: val
  children :: "val list option"
  parent :: "string option"
  paths :: "string list option"
  require :: "string option"   \<comment> \<open>the file the require implementation is bound to\<close>

datatype error =
    ResolutionFailure string string
  | TransformFailure string
  | SyntaxErrorIn string
  | EvaluationFailure string
  | UserThrown val
  | TypeError string
  | ReferenceError string
  | MetadataFailure string
  | HostFailure string

datatype 'a completion = Ok 'a | Throw error | OutOfFuel

text \<open>Values held by the own keys of the sandbox global that \<open>resetModuleRegistry\<close> walks.\<close>

datatype gval =
    GMock nat       \<comment> \<open>a mock function and the number of calls it has recorded\<close>
  | GFunction       \<comment> \<open>any other function\<close>
  | GObject         \<comment> \<open>an object without the mock-function marker\<close>
  | GPrim val

text \<open>Calls that leave the runtime, in the order they were made (written, never read).\<close>

datatype event =
    EvWrapper string        \<comment> \<open>the wrapper of this file was invoked\<close>
  | EvFactory string        \<comment> \<open>the mock factory of this module ID was invoked\<close>
  | EvTimers string         \<comment> \<open>a method of environment.fakeTimers\<close>
  | EvMockClearTimers

subsection \<open>Module bodies\<close>

text \<open>
  What a module wrapper does with the arguments \<open>_execModule\<close> passes to it: the
  statements use \<open>module\<close>, \<open>exports\<close>, \<open>require\<close> and \<open>jest\<close>.
\<close>

datatype expr = Lit val | Var string | Field string string

datatype timer_method =
  ClearAllTimers | RunAllTicks | RunAllImmediates | RunAllTimers | RunOnlyPendingTimers

fun timer_name :: "timer_method \<Rightarrow> string" where
  "timer_name ClearAllTimers = ''clearAllTimers''"
| "timer_name RunAllTicks = ''runAllTicks''"
| "timer_name RunAllImmediates = ''runAllImmediates''"
| "timer_name RunAllTimers = ''runAllTimers''"
| "timer_name RunOnlyPendingTimers = ''runOnlyPendingTimers''"

datatype jest_call =
    DisableAutomock
  | EnableAutomock
  | Unmock string
  | DeepUnmock string
  | Mock string "producer option" bool    \<comment> \<open>name, factory, options.virtual\<close>
  | SetMock string val
  | UseFakeTimers
  | UseRealTimers
  | Timer timer_method
  | GenMockFromModule string
  | ResetModuleRegistry

datatype stmt =
    SRequire string string          \<comment> \<open>\<open>const x = require(name)\<close>\<close>
  | SRequireActual string string    \<comment> \<open>\<open>const x = require.requireActual(name)\<close>\<close>
  | SRequireMock string string      \<comment> \<open>\<open>const x = require.requireMock(name)\<close>\<close>
  | SExport string expr             \<comment> \<open>\<open>exports.k = e\<close>\<close>
  | SModuleExports expr             \<comment> \<open>\<open>module.exports = e\<close>\<close>
  | SJest string jest_call          \<comment> \<open>\<open>const x = jest.m(...)\<close>\<close>
  | SThrow val                      \<comment> \<open>\<open>throw v\<close>\<close>

text \<open>What \<open>transform\<close> followed by \<open>_runScript\<close> yields for a file.\<close>

datatype script =
    TransformThrows
  | SyntaxErrorScript
  | EvaluationThrows
  | Wrapper "stmt list"

subsection \<open>Collaborators and configuration\<close>

record deps =
  resolveModule :: "string \<Rightarrow> string \<Rightarrow> string option"   \<comment> \<open>\<open>None\<close>: throws\<close>
  getModule :: "string \<Rightarrow> string option"
  getMockModule :: "string \<Rightarrow> string option"
  isCoreModule :: "string \<Rightarrow> bool"
  getModulePaths :: "string \<Rightarrow> string list"
  scripts :: "string \<Rightarrow> script"
  existsSync :: "string \<Rightarrow> bool"
  readJSON :: "string \<Rightarrow> producer option"                 \<comment> \<open>\<open>None\<close>: throws\<close>
  hostRequire :: "string \<Rightarrow> val option"                   \<comment> \<open>\<open>None\<close>: throws\<close>
  getMetadata :: "(nat \<Rightarrow> obj) \<Rightarrow> val \<Rightarrow> producer option"     \<comment> \<open>\<open>None\<close>: null\<close>
  fakeTimersResult :: "timer_method \<Rightarrow> val"
  dirname :: "string \<Rightarrow> string"
  basename :: "string \<Rightarrow> string"
  extname :: "string \<Rightarrow> string"
  normalize :: "string \<Rightarrow> string"
  join3 :: "string \<Rightarrow> string \<Rightarrow> string \<Rightarrow> string"
  delimiter :: string
  NODE_MODULES :: string
  collectCoverage :: bool
  collectCoverageOnlyFrom :: "(string \<rightharpoonup> bool) option"
  CoverageCollector :: bool                              \<comment> \<open>the collector class was loaded\<close>
  coverageRegex :: "string \<Rightarrow> bool"
  mocksPattern :: "(string \<Rightarrow> bool) option"
  testRegex :: "string \<Rightarrow> bool"
  unmockList :: "(string \<Rightarrow> bool) option"

subsection \<open>The runtime\<close>

record runtime =
  moduleRegistry :: "string \<rightharpoonup> nat"
  mockRegistry :: "string \<rightharpoonup> val"
  explicitShouldMock :: "string \<rightharpoonup> bool"
  mockFactories :: "string \<rightharpoonup> producer"
  mockMetaDataCache :: "string \<rightharpoonup> producer"
  virtualMocks :: "string \<rightharpoonup> bool"
  shouldAutoMock :: bool
  shouldMockModuleCache :: "string \<rightharpoonup> bool"
  shouldUnmockTransitiveDependenciesCache :: "string \<rightharpoonup> bool"
  transitiveShouldMock :: "string \<rightharpoonup> bool"
  currentlyExecutingModulePath :: string
  isCurrentlyExecutingManualMock :: "string option"
  coverageCollectors :: "string set"
  normalizedIDCache :: "string \<rightharpoonup> string"
  envGlobal :: "(string \<rightharpoonup> gval) option"     \<comment> \<open>\<open>None\<close>: the environment was disposed\<close>
  fakeTimersInUse :: bool
  modules :: "nat \<Rightarrow> module_rec"
  nextModule :: nat
  objects :: "nat \<Rightarrow> obj"
  nextObject :: nat
  nextFacade :: nat
  calls :: "event list"

type_synonym 'a outcome = "'a completion \<times> runtime"

definition andThen :: "'a outcome \<Rightarrow> ('a \<Rightarrow> runtime \<Rightarrow> 'b outcome) \<Rightarrow> 'b outcome" where
  "andThen m f =
     (case m of
        (Ok a, s) \<Rightarrow> f a s
      | (Throw e, s) \<Rightarrow> (Throw e, s)
      | (OutOfFuel, s) \<Rightarrow> (OutOfFuel, s))"

subsection \<open>Coverage wiring\<close>

text \<open>
  \<open>_shouldCollectCoverage\<close>. The JavaScript returns the value of an \<open>&&\<close> chain, used
  only for its truthiness; the model returns that truthiness. A missing key of the
  allow-list reads as \<open>undefined\<close>, which is falsy.
\<close>

definition shouldCollectCoverage :: "deps \<Rightarrow> string \<Rightarrow> bool" where
  "shouldCollectCoverage d fname =
     (let collectOnlyFrom = collectCoverageOnlyFrom d;
          shouldCollect =
            ((collectCoverage d \<and> collectOnlyFrom = None) \<or>
             (case collectOnlyFrom of
                None \<Rightarrow> False
              | Some only \<Rightarrow> (case only fname of None \<Rightarrow> False | Some b \<Rightarrow> b)))
      in shouldCollect \<and>
         \<not> coverageRegex d fname \<and>
         \<not> (case mocksPattern d of None \<Rightarrow> False | Some p \<Rightarrow> p fname) \<and>
         \<not> testRegex d fname)"

subsection \<open>Resolution and module identifiers\<close>

definition truthyS :: "string option \<Rightarrow> bool" where
  "truthyS r = (case r of None \<Rightarrow> False | Some p \<Rightarrow> p \<noteq> [])"

definition orEmpty :: "string option \<Rightarrow> string" where
  "orEmpty r = (case r of None \<Rightarrow> [] | Some p \<Rightarrow> p)"

text \<open>\<open>String.prototype.str_includes\<close>.\<close>

fun str_includes :: "string \<Rightarrow> string \<Rightarrow> bool" where
  "str_includes [] sub = (sub = [])"
| "str_includes (c # cs) sub = (take (length sub) (c # cs) = sub \<or> str_includes cs sub)"

text \<open>\<open>_resolveModule\<close>: \<open>to ? this._resolver.resolveModule(from, to) : from\<close>.\<close>

definition priv_resolveModule :: "deps \<Rightarrow> string \<Rightarrow> string option \<Rightarrow> runtime \<Rightarrow> string outcome" where
  "priv_resolveModule d from to s =
     (if truthyS to then
        (case resolveModule d from (orEmpty to) of
           None \<Rightarrow> (Throw (ResolutionFailure from (orEmpty to)), s)
         | Some p \<Rightarrow> (Ok p, s))
      else (Ok from, s))"

definition getVirtualMockPath :: "deps \<Rightarrow> string \<Rightarrow> string \<Rightarrow> string" where
  "getVirtualMockPath d from moduleName =
     (if (case moduleName of [] \<Rightarrow> True | c # cs \<Rightarrow> c \<noteq> CHR ''.'' \<and> c \<noteq> CHR ''/'')
      then moduleName
      else normalize d (dirname d from @ ''/'' @ moduleName))"

text \<open>The last two lines of \<open>_normalizeID\<close>: build the ID and memoise it.\<close>

definition storeID ::
  "deps \<Rightarrow> string \<Rightarrow> string \<Rightarrow> string option \<Rightarrow> string option \<Rightarrow> runtime \<Rightarrow> string outcome" where
  "storeID d key moduleType absolutePath mockPath s =
     (let sep = delimiter d;
          ident = moduleType @ sep @ orEmpty absolutePath @ sep @ orEmpty mockPath
      in (Ok ident, s\<lparr>normalizedIDCache := (normalizedIDCache s)(key \<mapsto> ident)\<rparr>))"

definition normalizeID :: "deps \<Rightarrow> string \<Rightarrow> string option \<Rightarrow> runtime \<Rightarrow> string outcome" where
  "normalizeID d from moduleName0 s =
     (let moduleName = orEmpty moduleName0;
          key = from @ delimiter d @ moduleName
      in if truthyS (normalizedIDCache s key) then (Ok (orEmpty (normalizedIDCache s key)), s)
         else if isCoreModule d moduleName then storeID d key ''node'' (Some moduleName) None s
         else
           andThen
             (if \<not> truthyS (getModule d moduleName) \<and> \<not> truthyS (getMockModule d moduleName)
              then
                andThen
                  (if moduleName \<noteq> [] \<and>
                      virtualMocks s (getVirtualMockPath d from moduleName) \<noteq> None
                   then (Ok (getVirtualMockPath d from moduleName), s)
                   else priv_resolveModule d from (Some moduleName) s)
                  (\<lambda>absolutePath s.
                     (Ok (Some absolutePath,
                          if truthyS (getMockModule d moduleName)
                          then getMockModule d moduleName else None), s))
              else (Ok (None, None), s))
             (\<lambda>(absolutePath, mockPath) s.
                storeID d key ''user''
                  (if absolutePath = None \<and> truthyS (getModule d moduleName)
                   then getModule d moduleName else absolutePath)
                  (if mockPath = None \<and> truthyS (getMockModule d moduleName)
                   then getMockModule d moduleName else mockPath)
                  s))"

subsection \<open>The mock-policy oracle\<close>

definition matchesOpt :: "(string \<Rightarrow> bool) option \<Rightarrow> string \<Rightarrow> bool" where
  "matchesOpt re p = (case re of None \<Rightarrow> False | Some t \<Rightarrow> t p)"

definition shouldMock :: "deps \<Rightarrow> string \<Rightarrow> string \<Rightarrow> runtime \<Rightarrow> bool outcome" where
  "shouldMock d from moduleName s =
     (if virtualMocks s (getVirtualMockPath d from moduleName) \<noteq> None then (Ok True, s)
      else
        andThen (normalizeID d from (Some moduleName) s) (\<lambda>moduleID s.
          let key = from @ delimiter d @ moduleID in
          case explicitShouldMock s moduleID of
            Some b \<Rightarrow> (Ok b, s)
          | None \<Rightarrow>
              if \<not> shouldAutoMock s \<or> isCoreModule d moduleName \<or>
                 shouldUnmockTransitiveDependenciesCache s key = Some True
              then (Ok False, s)
              else
                (case shouldMockModuleCache s moduleID of
                   Some b \<Rightarrow> (Ok b, s)
                 | None \<Rightarrow>
                     (case priv_resolveModule d from (Some moduleName) s of
                        (Throw e, s') \<Rightarrow>
                          if truthyS (getMockModule d moduleName)
                          then (Ok True, s'\<lparr>shouldMockModuleCache :=
                                  (shouldMockModuleCache s')(moduleID \<mapsto> True)\<rparr>)
                          else (Throw e, s')
                      | (OutOfFuel, s') \<Rightarrow> (OutOfFuel, s')
                      | (Ok modulePath, s) \<Rightarrow>
                          if matchesOpt (unmockList d) modulePath
                          then (Ok False, s\<lparr>shouldMockModuleCache :=
                                  (shouldMockModuleCache s)(moduleID \<mapsto> False)\<rparr>)
                          else
                            andThen (normalizeID d from None s) (\<lambda>currentModuleID s.
                              if transitiveShouldMock s currentModuleID = Some False \<or>
                                 (str_includes from (NODE_MODULES d) \<and>
                                  str_includes modulePath (NODE_MODULES d) \<and>
                                  (matchesOpt (unmockList d) from \<or>
                                   explicitShouldMock s currentModuleID = Some False))
                              then (Ok False, s\<lparr>
                                      transitiveShouldMock :=
                                        (transitiveShouldMock s)(moduleID \<mapsto> False),
                                      shouldUnmockTransitiveDependenciesCache :=
                                        (shouldUnmockTransitiveDependenciesCache s)(key \<mapsto> True)\<rparr>)
                              else (Ok True, s\<lparr>shouldMockModuleCache :=
                                      (shouldMockModuleCache s)(moduleID \<mapsto> True)\<rparr>))))))"

subsection \<open>Registering mocks and resetting the registries\<close>

definition setMock ::
  "deps \<Rightarrow> string \<Rightarrow> string \<Rightarrow> producer \<Rightarrow> bool \<Rightarrow> runtime \<Rightarrow> val outcome" where
  "setMock d from moduleName mockFactory virtual s =
     (let s1 = (if virtual
                then s\<lparr>virtualMocks :=
                       (virtualMocks s)(getVirtualMockPath d from moduleName \<mapsto> True)\<rparr>
                else s)
      in andThen (normalizeID d from (Some moduleName) s1) (\<lambda>moduleID s.
           (Ok VUndefined,
            s\<lparr>explicitShouldMock := (explicitShouldMock s)(moduleID \<mapsto> True),
              mockFactories := (mockFactories s)(moduleID \<mapsto> mockFactory)\<rparr>)))"

text \<open>
  Modelled from the spec: \<open>mockClear\<close> of the mock library (not in this file) leaves a
  mock function with zero recorded calls.
\<close>

fun mockClear :: "gval \<Rightarrow> gval" where
  "mockClear (GMock n) = GMock 0"
| "mockClear g = g"

fun gtruthy :: "gval \<Rightarrow> bool" where
  "gtruthy (GPrim v) = truthy v"
| "gtruthy g = True"

definition resetModuleRegistry :: "runtime \<Rightarrow> val outcome" where
  "resetModuleRegistry s =
     (let s1 = s\<lparr>mockRegistry := Map.empty, moduleRegistry := Map.empty\<rparr>
      in case envGlobal s1 of
           None \<Rightarrow> (Ok VUndefined, s1)
         | Some g \<Rightarrow>
             (let g' = (\<lambda>key. map_option mockClear (g key));
                  s2 = s1\<lparr>envGlobal := Some g'\<rparr>
              in case g' ''mockClearTimers'' of
                   None \<Rightarrow> (Ok VUndefined, s2)
                 | Some GFunction \<Rightarrow>
                     (Ok VUndefined, s2\<lparr>calls := calls s2 @ [EvMockClearTimers]\<rparr>)
                 | Some (GMock n) \<Rightarrow>
                     (Ok VUndefined,
                      s2\<lparr>envGlobal := Some (g'(''mockClearTimers'' \<mapsto> GMock (Suc n)))\<rparr>)
                 | Some other \<Rightarrow>
                     if gtruthy other then (Throw (TypeError ''mockClearTimers''), s2)
                     else (Ok VUndefined, s2)))"

subsection \<open>Producers and the mock library\<close>

text \<open>Calling a producer: an object literal allocates a new object.\<close>

definition produce :: "producer \<Rightarrow> runtime \<Rightarrow> val \<times> runtime" where
  "produce p s =
     (case p of
        Ret v \<Rightarrow> (v, s)
      | Fresh kvs \<Rightarrow>
          (VRef (nextObject s),
           s\<lparr>objects := (objects s)(nextObject s := map_of kvs),
             nextObject := Suc (nextObject s)\<rparr>))"

text \<open>
  Modelled from the spec: the mock library's \<open>getMetadata\<close> of an empty object and its
  \<open>generateFromMetadata\<close> are not in this file. Metadata is a serialisable shape, here a
  producer; regenerating from it materialises a new value.
\<close>

definition emptyMetadata :: producer where
  "emptyMetadata = Fresh []"

definition generateFromMetadata :: "producer \<Rightarrow> runtime \<Rightarrow> val outcome" where
  "generateFromMetadata md s = (case produce md s of (v, s') \<Rightarrow> (Ok v, s'))"

subsection \<open>Calls from module bodies back into the runtime\<close>

datatype call =
    RequireModuleOrMock string string
  | RequireModule string "string option"
  | RequireMock string string
  | GenerateMock string string

type_synonym reenter = "call \<Rightarrow> runtime \<Rightarrow> val outcome"

subsection \<open>The per-file jest object\<close>

text \<open>
  \<open>_createRuntimeFor(from)\<close> builds the object \<open>runtime\<close>; \<open>self\<close> is its identity. The
  methods modelled are those that change the runtime, the timer controls and
  \<open>genMockFromModule\<close>; the aliases (\<open>autoMockOff\<close>, \<open>autoMockOn\<close>, \<open>dontMock\<close>, \<open>doMock\<close>) are
  the same closures. \<open>addMatchers\<close>, \<open>getTestEnvData\<close> and the mock-function helpers only
  call into the test framework and the mock library.
\<close>

definition jestCall :: "deps \<Rightarrow> reenter \<Rightarrow> nat \<Rightarrow> string \<Rightarrow> jest_call \<Rightarrow> runtime \<Rightarrow> val outcome" where
  "jestCall d reenter self from c s =
     (case c of
        DisableAutomock \<Rightarrow> (Ok (VFacade self), s\<lparr>shouldAutoMock := False\<rparr>)
      | EnableAutomock \<Rightarrow> (Ok (VFacade self), s\<lparr>shouldAutoMock := True\<rparr>)
      | Unmock moduleName \<Rightarrow>
          andThen (normalizeID d from (Some moduleName) s) (\<lambda>moduleID s.
            (Ok (VFacade self),
             s\<lparr>explicitShouldMock := (explicitShouldMock s)(moduleID \<mapsto> False)\<rparr>))
      | DeepUnmock moduleName \<Rightarrow>
          andThen (normalizeID d from (Some moduleName) s) (\<lambda>moduleID s.
            (Ok (VFacade self),
             s\<lparr>explicitShouldMock := (explicitShouldMock s)(moduleID \<mapsto> False),
               transitiveShouldMock := (transitiveShouldMock s)(moduleID \<mapsto> False)\<rparr>))
      | Mock moduleName (Some mockFactory) virtual \<Rightarrow>
          andThen (setMock d from moduleName mockFactory virtual s) (\<lambda>u s.
            (Ok (VFacade self), s))
      | Mock moduleName None virtual \<Rightarrow>
          andThen (normalizeID d from (Some moduleName) s) (\<lambda>moduleID s.
            (Ok (VFacade self),
             s\<lparr>explicitShouldMock := (explicitShouldMock s)(moduleID \<mapsto> True)\<rparr>))
      | SetMock moduleName mock \<Rightarrow>
          andThen (setMock d from moduleName (Ret mock) False s) (\<lambda>u s.
            (Ok (VFacade self), s))
      | UseFakeTimers \<Rightarrow>
          (Ok (VFacade self),
           s\<lparr>fakeTimersInUse := True, calls := calls s @ [EvTimers ''useFakeTimers'']\<rparr>)
      | UseRealTimers \<Rightarrow>
          (Ok (VFacade self),
           s\<lparr>fakeTimersInUse := False, calls := calls s @ [EvTimers ''useRealTimers'']\<rparr>)
      | Timer m \<Rightarrow>
          (Ok (fakeTimersResult d m), s\<lparr>calls := calls s @ [EvTimers (timer_name m)]\<rparr>)
      | GenMockFromModule moduleName \<Rightarrow> reenter (GenerateMock from moduleName) s
      | ResetModuleRegistry \<Rightarrow>
          andThen (resetModuleRegistry s) (\<lambda>u s. (Ok (VFacade self), s)))"

subsection \<open>Running a module wrapper\<close>

record ctx =
  c_module :: nat      \<comment> \<open>the argument \<open>module\<close>\<close>
  c_exports :: val     \<comment> \<open>the argument \<open>exports\<close>\<close>
  c_filename :: string \<comment> \<open>the argument \<open>__filename\<close>, to which \<open>require\<close> is bound\<close>
  c_jest :: nat        \<comment> \<open>the argument \<open>jest\<close>\<close>

type_synonym locals = "string \<rightharpoonup> val"

definition evalExpr :: "locals \<Rightarrow> runtime \<Rightarrow> expr \<Rightarrow> val outcome" where
  "evalExpr env s e =
     (case e of
        Lit v \<Rightarrow> (Ok v, s)
      | Var x \<Rightarrow> (case env x of None \<Rightarrow> (Throw (ReferenceError x), s) | Some v \<Rightarrow> (Ok v, s))
      | Field x k \<Rightarrow>
          (case env x of
             None \<Rightarrow> (Throw (ReferenceError x), s)
           | Some VUndefined \<Rightarrow> (Throw (TypeError k), s)
           | Some VNull \<Rightarrow> (Throw (TypeError k), s)
           | Some (VRef a) \<Rightarrow>
               (Ok (case objects s a k of None \<Rightarrow> VUndefined | Some v \<Rightarrow> v), s)
           | Some other \<Rightarrow> (Ok VUndefined, s)))"

definition execStmt :: "deps \<Rightarrow> reenter \<Rightarrow> ctx \<Rightarrow> locals \<Rightarrow> stmt \<Rightarrow> runtime \<Rightarrow> locals outcome" where
  "execStmt d reenter c env st s =
     (case st of
        SRequire x moduleName \<Rightarrow>
          andThen (reenter (RequireModuleOrMock (c_filename c) moduleName) s) (\<lambda>v s.
            (Ok (env(x \<mapsto> v)), s))
      | SRequireActual x moduleName \<Rightarrow>
          andThen (reenter (RequireModule (c_filename c) (Some moduleName)) s) (\<lambda>v s.
            (Ok (env(x \<mapsto> v)), s))
      | SRequireMock x moduleName \<Rightarrow>
          andThen (reenter (RequireMock (c_filename c) moduleName) s) (\<lambda>v s.
            (Ok (env(x \<mapsto> v)), s))
      | SExport k e \<Rightarrow>
          andThen (evalExpr env s e) (\<lambda>v s.
            (case c_exports c of
               VRef a \<Rightarrow> (Ok env, s\<lparr>objects := (objects s)(a := (objects s a)(k \<mapsto> v))\<rparr>)
             | other \<Rightarrow> (Ok env, s)))
      | SModuleExports e \<Rightarrow>
          andThen (evalExpr env s e) (\<lambda>v s.
            (Ok env,
             s\<lparr>modules := (modules s)(c_module c := (modules s (c_module c))\<lparr>exports := v\<rparr>)\<rparr>))
      | SJest x jc \<Rightarrow>
          andThen (jestCall d reenter (c_jest c) (c_filename c) jc s) (\<lambda>v s.
            (Ok (env(x \<mapsto> v)), s))
      | SThrow v \<Rightarrow> (Throw (UserThrown v), s))"

fun execStmts :: "deps \<Rightarrow> reenter \<Rightarrow> ctx \<Rightarrow> locals \<Rightarrow> stmt list \<Rightarrow> runtime \<Rightarrow> val outcome" where
  "execStmts d reenter c env [] s = (Ok VUndefined, s)"
| "execStmts d reenter c env (st # sts) s =
     (case execStmt d reenter c env st s of
        (Ok env', s') \<Rightarrow> execStmts d reenter c env' sts s'
      | (Throw e, s') \<Rightarrow> (Throw e, s')
      | (OutOfFuel, s') \<Rightarrow> (OutOfFuel, s'))"

subsection \<open>Sandbox invocation\<close>

definition execModule :: "deps \<Rightarrow> reenter \<Rightarrow> nat \<Rightarrow> runtime \<Rightarrow> val outcome" where
  "execModule d reenter localModule s =
     (if envGlobal s = None then (Ok VUndefined, s)
      else
        let fname = filename (modules s localModule);
            shouldCollect = shouldCollectCoverage d fname
        in if shouldCollect \<and> fname \<notin> coverageCollectors s \<and> \<not> CoverageCollector d
           then (Throw (TypeError ''CoverageCollector''), s)
           else
             let s1 = (if shouldCollect \<and> fname \<notin> coverageCollectors s
                       then s\<lparr>coverageCollectors := insert fname (coverageCollectors s)\<rparr>
                       else s);
                 lastExecutingModulePath = currentlyExecutingModulePath s1;
                 origCurrExecutingManualMock = isCurrentlyExecutingManualMock s1;
                 s2 = s1\<lparr>currentlyExecutingModulePath := fname,
                         isCurrentlyExecutingManualMock := Some fname\<rparr>;
                 s3 = s2\<lparr>modules := (modules s2)(localModule :=
                         (modules s2 localModule)\<lparr>
                           children := Some [],
                           parent := Some ''mockParent'',
                           paths := Some (getModulePaths d (dirname d fname)),
                           require := Some fname\<rparr>)\<rparr>
             in case scripts d fname of
                  TransformThrows \<Rightarrow> (Throw (TransformFailure fname), s3)
                | SyntaxErrorScript \<Rightarrow> (Throw (SyntaxErrorIn fname), s3)
                | EvaluationThrows \<Rightarrow> (Throw (EvaluationFailure fname), s3)
                | Wrapper body \<Rightarrow>
                    (let c = \<lparr>c_module = localModule,
                              c_exports = exports (modules s3 localModule),
                              c_filename = fname,
                              c_jest = nextFacade s3\<rparr>;
                         s4 = s3\<lparr>nextFacade := Suc (nextFacade s3),
                                 calls := calls s3 @ [EvWrapper fname]\<rparr>
                     in andThen (execStmts d reenter c Map.empty body s4) (\<lambda>u s5.
                          (Ok VUndefined,
                           s5\<lparr>isCurrentlyExecutingManualMock := origCurrExecutingManualMock,
                              currentlyExecutingModulePath := lastExecutingModulePath\<rparr>))))"

subsection \<open>The loader\<close>

text \<open>The literal \<open>{filename: modulePath, exports: {}}\<close>: a new record with a new, empty
  exports object. The result is the address of the record.\<close>

definition newLocalModule :: "string \<Rightarrow> runtime \<Rightarrow> nat \<times> runtime" where
  "newLocalModule modulePath s =
     (nextModule s,
      s\<lparr>objects := (objects s)(nextObject s := Map.empty),
        nextObject := Suc (nextObject s),
        modules := (modules s)(nextModule s :=
          \<lparr>filename = modulePath, exports = VRef (nextObject s), children = None,
           parent = None, paths = None, require = None\<rparr>),
        nextModule := Suc (nextModule s)\<rparr>)"

definition setExports :: "nat \<Rightarrow> val \<Rightarrow> runtime \<Rightarrow> runtime" where
  "setExports m v s = s\<lparr>modules := (modules s)(m := (modules s m)\<lparr>exports := v\<rparr>)\<rparr>"

definition requireModule :: "deps \<Rightarrow> reenter \<Rightarrow> string \<Rightarrow> string option \<Rightarrow> runtime \<Rightarrow> val outcome" where
  "requireModule d reenter from moduleName s =
     andThen (normalizeID d from moduleName s) (\<lambda>moduleID s.
       let moduleResource = (if truthyS moduleName then getModule d (orEmpty moduleName) else None);
           manualMockResource =
             (if truthyS moduleName then getMockModule d (orEmpty moduleName) else None);
           modulePath0 =
             (if \<not> truthyS moduleResource \<and> truthyS manualMockResource \<and>
                 manualMockResource \<noteq> isCurrentlyExecutingManualMock s \<and>
                 explicitShouldMock s moduleID \<noteq> Some False
              then manualMockResource else None)
       in if truthyS moduleName \<and> isCoreModule d (orEmpty moduleName)
          then (case hostRequire d (orEmpty moduleName) of
                  None \<Rightarrow> (Throw (HostFailure (orEmpty moduleName)), s)
                | Some v \<Rightarrow> (Ok v, s))
          else
            andThen (if truthyS modulePath0 then (Ok (orEmpty modulePath0), s)
                     else priv_resolveModule d from moduleName s) (\<lambda>modulePath s.
              andThen
                (if moduleRegistry s modulePath = None then
                   (case newLocalModule modulePath s of (localModule, s0) \<Rightarrow>
                      let s1 = s0\<lparr>moduleRegistry :=
                                 (moduleRegistry s0)(modulePath \<mapsto> localModule)\<rparr>
                      in if extname d modulePath = ''.json'' then
                           (if envGlobal s1 = None then (Throw (TypeError ''JSON''), s1)
                            else case readJSON d modulePath of
                                   None \<Rightarrow> (Throw (HostFailure modulePath), s1)
                                 | Some lit \<Rightarrow>
                                     (case produce lit s1 of (v, s2) \<Rightarrow>
                                        (Ok VUndefined, setExports localModule v s2)))
                         else if extname d modulePath = ''.node'' then
                           (case hostRequire d modulePath of
                              None \<Rightarrow> (Throw (HostFailure modulePath), s1)
                            | Some v \<Rightarrow> (Ok VUndefined, setExports localModule v s1))
                         else execModule d reenter localModule s1)
                 else (Ok VUndefined, s))
                (\<lambda>u s.
                   case moduleRegistry s modulePath of
                     None \<Rightarrow> (Throw (TypeError ''exports''), s)
                   | Some m \<Rightarrow> (Ok (exports (modules s m)), s))))"

subsection \<open>The automock synthesiser\<close>

definition generateMock :: "deps \<Rightarrow> reenter \<Rightarrow> string \<Rightarrow> string \<Rightarrow> runtime \<Rightarrow> val outcome" where
  "generateMock d reenter from moduleName s =
     andThen (priv_resolveModule d from (Some moduleName) s) (\<lambda>modulePath s.
       andThen
         (case mockMetaDataCache s modulePath of
            Some cached \<Rightarrow> (Ok cached, s)
          | None \<Rightarrow>
              (let s1 = s\<lparr>mockMetaDataCache :=
                          (mockMetaDataCache s)(modulePath \<mapsto> emptyMetadata)\<rparr>;
                   origMockRegistry = mockRegistry s1;
                   origModuleRegistry = moduleRegistry s1;
                   s2 = s1\<lparr>mockRegistry := Map.empty, moduleRegistry := Map.empty\<rparr>
               in andThen (requireModule d reenter from (Some moduleName) s2) (\<lambda>moduleExports s3.
                    let s4 = s3\<lparr>mockRegistry := origMockRegistry,
                                moduleRegistry := origModuleRegistry\<rparr>
                    in case getMetadata d (objects s4) moduleExports of
                         None \<Rightarrow> (Throw (MetadataFailure modulePath), s4)
                       | Some mockMetadata \<Rightarrow>
                           (Ok mockMetadata,
                            s4\<lparr>mockMetaDataCache :=
                                 (mockMetaDataCache s4)(modulePath \<mapsto> mockMetadata)\<rparr>))))
         (\<lambda>metadata s. generateFromMetadata metadata s))"

subsection \<open>The mock loader\<close>

definition requireMock :: "deps \<Rightarrow> reenter \<Rightarrow> string \<Rightarrow> string \<Rightarrow> runtime \<Rightarrow> val outcome" where
  "requireMock d reenter from moduleName s =
     andThen (normalizeID d from (Some moduleName) s) (\<lambda>moduleID s.
       case (case mockRegistry s moduleID of
               None \<Rightarrow> None
             | Some v \<Rightarrow> if truthy v then Some v else None) of
         Some v \<Rightarrow> (Ok v, s)
       | None \<Rightarrow>
          (case mockFactories s moduleID of
             Some factory \<Rightarrow>
               (case produce factory (s\<lparr>calls := calls s @ [EvFactory moduleID]\<rparr>) of
                  (v, s1) \<Rightarrow> (Ok v, s1\<lparr>mockRegistry := (mockRegistry s1)(moduleID \<mapsto> v)\<rparr>))
           | None \<Rightarrow>
               andThen
                 (if truthyS (getMockModule d moduleName)
                  then andThen (priv_resolveModule d from (getMockModule d moduleName) s)
                         (\<lambda>modulePath s. (Ok (True, modulePath), s))
                  else andThen (priv_resolveModule d from (Some moduleName) s)
                         (\<lambda>modulePath s.
                            let potentialManualMock =
                                  join3 d (dirname d modulePath) ''__mocks__''
                                    (basename d modulePath)
                            in if existsSync d potentialManualMock
                               then (Ok (True, potentialManualMock), s)
                               else (Ok (False, modulePath), s)))
                 (\<lambda>(manualMockResource, modulePath) s.
                    if manualMockResource then
                      (case newLocalModule modulePath s of (localModule, s1) \<Rightarrow>
                         andThen (execModule d reenter localModule s1) (\<lambda>u s2.
                           (Ok (exports (modules s2 localModule)),
                            s2\<lparr>mockRegistry := (mockRegistry s2)
                                 (moduleID \<mapsto> exports (modules s2 localModule))\<rparr>)))
                    else
                      andThen (generateMock d reenter from moduleName s) (\<lambda>v s2.
                        (Ok v, s2\<lparr>mockRegistry := (mockRegistry s2)(moduleID \<mapsto> v)\<rparr>)))))"

definition requireModuleOrMock :: "deps \<Rightarrow> reenter \<Rightarrow> string \<Rightarrow> string \<Rightarrow> runtime \<Rightarrow> val outcome" where
  "requireModuleOrMock d reenter from moduleName s =
     andThen (shouldMock d from moduleName s) (\<lambda>mock s.
       if mock then requireMock d reenter from moduleName s
       else requireModule d reenter from (Some moduleName) s)"

subsection \<open>Re-entrance, bounded by fuel\<close>

text \<open>
  A module body calls back into the loader, which may execute another body. \<open>run n\<close>
  serves calls nested at most \<open>n\<close> deep; a deeper call yields \<open>OutOfFuel\<close>.
\<close>

definition dispatch :: "deps \<Rightarrow> reenter \<Rightarrow> call \<Rightarrow> runtime \<Rightarrow> val outcome" where
  "dispatch d reenter c s =
     (case c of
        RequireModuleOrMock from moduleName \<Rightarrow> requireModuleOrMock d reenter from moduleName s
      | RequireModule from moduleName \<Rightarrow> requireModule d reenter from moduleName s
      | RequireMock from moduleName \<Rightarrow> requireMock d reenter from moduleName s
      | GenerateMock from moduleName \<Rightarrow> generateMock d reenter from moduleName s)"

primrec run :: "nat \<Rightarrow> deps \<Rightarrow> call \<Rightarrow> runtime \<Rightarrow> val outcome" where
  "run 0 d c s = (OutOfFuel, s)"
| "run (Suc n) d c s = dispatch d (run n d) c s"

subsection \<open>A runtime as the constructor leaves it, and sample collaborators\<close>

text \<open>The fields as the constructor assigns them, before it resets the registries and
  requires the setup files; \<open>g\<close> is the sandbox global.\<close>

definition newRuntime :: "bool \<Rightarrow> (string \<rightharpoonup> gval) \<Rightarrow> runtime" where
  "newRuntime automock g =
     \<lparr>moduleRegistry = Map.empty, mockRegistry = Map.empty,
      explicitShouldMock = Map.empty, mockFactories = Map.empty,
      mockMetaDataCache = Map.empty, virtualMocks = Map.empty,
      shouldAutoMock = automock, shouldMockModuleCache = Map.empty,
      shouldUnmockTransitiveDependenciesCache = Map.empty,
      transitiveShouldMock = Map.empty,
      currentlyExecutingModulePath = [], isCurrentlyExecutingManualMock = None,
      coverageCollectors = {}, normalizedIDCache = Map.empty,
      envGlobal = Some g, fakeTimersInUse = False,
      modules = (\<lambda>a. \<lparr>filename = [], exports = VUndefined, children = None,
                         parent = None, paths = None, require = None\<rparr>),
      nextModule = 0, objects = (\<lambda>a. Map.empty), nextObject = 0, nextFacade = 0,
      calls = []\<rparr>"

text \<open>
  Collaborators for the worked scenarios: a resolver and a transformer given by tables,
  POSIX-like path functions on plain paths, no haste modules, no core modules, coverage
  off, and fake-timer methods that return \<open>undefined\<close>.
\<close>

definition sample_dirname :: "string \<Rightarrow> string" where
  "sample_dirname p = rev (drop 1 (dropWhile (\<lambda>c. c \<noteq> CHR ''/'') (rev p)))"

definition sample_basename :: "string \<Rightarrow> string" where
  "sample_basename p = rev (takeWhile (\<lambda>c. c \<noteq> CHR ''/'') (rev p))"

definition sample_extname :: "string \<Rightarrow> string" where
  "sample_extname p =
     (let b = sample_basename p
      in if CHR ''.'' \<in> set b
         then CHR ''.'' # rev (takeWhile (\<lambda>c. c \<noteq> CHR ''.'') (rev b)) else [])"

definition sample_deps :: "((string \<times> string) \<times> string) list \<Rightarrow> (string \<times> script) list \<Rightarrow> deps" where
  "sample_deps resolutions files =
     \<lparr>resolveModule = (\<lambda>from name. map_of resolutions (from, name)),
      getModule = (\<lambda>name. None),
      getMockModule = (\<lambda>name. None),
      isCoreModule = (\<lambda>name. False),
      getModulePaths = (\<lambda>dir. []),
      scripts = (\<lambda>f. case map_of files f of None \<Rightarrow> TransformThrows | Some sc \<Rightarrow> sc),
      existsSync = (\<lambda>p. False),
      readJSON = (\<lambda>p. None),
      hostRequire = (\<lambda>p. None),
      getMetadata = (\<lambda>heap v. Some (case v of VRef a \<Rightarrow> Fresh [] | other \<Rightarrow> Ret other)),
      fakeTimersResult = (\<lambda>m. VUndefined),
      dirname = sample_dirname,
      basename = sample_basename,
      extname = sample_extname,
      normalize = (\<lambda>p. p),
      join3 = (\<lambda>a b c. a @ ''/'' @ b @ ''/'' @ c),
      delimiter = '':'',
      NODE_MODULES = ''/node_modules/'',
      collectCoverage = False,
      collectCoverageOnlyFrom = None,
      CoverageCollector = False,
      coverageRegex = (\<lambda>p. False),
      mocksPattern = None,
      testRegex = (\<lambda>p. False),
      unmockList = None\<rparr>"

subsection \<open>The specification's wording of the coverage predicate\<close>


subsection \<open>Predicates and sample programs used by the properties\<close>

text \<open>The facade methods whose source ends in \<open>return runtime\<close>.\<close>

fun chainable :: "jest_call \<Rightarrow> bool" where
  "chainable (Timer m) = False"
| "chainable (GenMockFromModule moduleName) = False"
| "chainable c = True"

text \<open>\<open>new this._CoverageCollector()\<close> does not fail for this file: no collector is
  needed, or one exists already, or the collector class was loaded.\<close>

definition coverageReady :: "deps \<Rightarrow> string \<Rightarrow> runtime \<Rightarrow> bool" where
  "coverageReady d fname s =
     (\<not> shouldCollectCoverage d fname \<or> fname \<in> coverageCollectors s \<or> CoverageCollector d)"

text \<open>A file whose wrapper throws, and a file the transformer rejects.\<close>

definition thrower_deps :: deps where
  "thrower_deps = sample_deps [] [(''/t/a.js'', Wrapper [SThrow (VStr ''boom'')])]"

definition fresh_a :: runtime where
  "fresh_a = snd (newLocalModule ''/t/a.js'' (newRuntime False Map.empty))"

definition fresh_missing :: runtime where
  "fresh_missing = snd (newLocalModule ''/t/missing.js'' (newRuntime False Map.empty))"

text \<open>A file whose wrapper only sets a property of its exports.\<close>

definition plain_deps :: deps where
  "plain_deps = sample_deps [] [(''/t/a.js'', Wrapper [SExport ''n'' (Lit (VNum 1))])]"


text \<open>From \<open>/t/x.js\<close>, the specifier \<open>./b\<close> resolves to \<open>/t/b.js\<close>.\<close>

definition b_deps :: deps where
  "b_deps = sample_deps [((''/t/x.js'', ''./b''), ''/t/b.js'')]
              [(''/t/b.js'', Wrapper [SExport ''n'' (Lit (VNum 1))])]"





text \<open>The runtime in which \<open>_generateMock\<close> calls \<open>requireModule\<close>: the metadata cache
  seeded for the path, both registries replaced by empty ones.\<close>

definition isolated :: "string \<Rightarrow> runtime \<Rightarrow> runtime" where
  "isolated modulePath s =
     s\<lparr>mockMetaDataCache := (mockMetaDataCache s)(modulePath \<mapsto> emptyMetadata),
       mockRegistry := Map.empty, moduleRegistry := Map.empty\<rparr>"

text \<open>A runtime with an entry in each registry, and a file \<open>/t/a.js\<close>, reached as \<open>./a\<close>
  from \<open>/t/x.js\<close>, whose wrapper throws.\<close>

definition seeded :: runtime where
  "seeded = (newRuntime False Map.empty)\<lparr>moduleRegistry := [''/t/other.js'' \<mapsto> 5],
               mockRegistry := [''id'' \<mapsto> VNum 1]\<rparr>"

definition throw_a_deps :: deps where
  "throw_a_deps = sample_deps [((''/t/x.js'', ''./a''), ''/t/a.js'')]
                    [(''/t/a.js'', Wrapper [SThrow (VStr ''boom'')])]"

text \<open>
  How \<open>requireModule\<close> arrives at a module path. \<open>resolvesTo\<close>: the specifier is not a core
  module and \<open>_resolveModule\<close> yields the path. \<open>legacyMockCandidate\<close>: a manual mock is
  registered for the specifier and no haste module is, so that the legacy rule may pick
  the manual mock instead of the resolver's path.
\<close>

definition resolvesTo :: "deps \<Rightarrow> string \<Rightarrow> string option \<Rightarrow> string \<Rightarrow> bool" where
  "resolvesTo d from moduleName p =
     (if truthyS moduleName
      then \<not> isCoreModule d (orEmpty moduleName) \<and>
           resolveModule d from (orEmpty moduleName) = Some p
      else p = from)"

definition legacyMockCandidate :: "deps \<Rightarrow> string option \<Rightarrow> bool" where
  "legacyMockCandidate d moduleName =
     (truthyS moduleName \<and> \<not> truthyS (getModule d (orEmpty moduleName)) \<and>
      truthyS (getMockModule d (orEmpty moduleName)))"

text \<open>The runtime after \<open>this._moduleRegistry[modulePath] = localModule\<close> for a new
  \<open>localModule\<close>, and the last line of \<open>requireModule\<close>.\<close>

definition withPlaceholder :: "string \<Rightarrow> runtime \<Rightarrow> runtime" where
  "withPlaceholder modulePath s =
     (case newLocalModule modulePath s of
        (localModule, s') \<Rightarrow>
          s'\<lparr>moduleRegistry := (moduleRegistry s')(modulePath \<mapsto> localModule)\<rparr>)"

definition readExports :: "string \<Rightarrow> runtime \<Rightarrow> val outcome" where
  "readExports modulePath s =
     (case moduleRegistry s modulePath of
        None \<Rightarrow> (Throw (TypeError ''exports''), s)
      | Some m \<Rightarrow> (Ok (exports (modules s m)), s))"

text \<open>
  Scenario S2 of the specification. \<open>/t/a.js\<close>:
  \<open>exports.a = 1; require("./b"); exports.a = 2\<close>. \<open>/t/b.js\<close>:
  \<open>const A = require("./a"); exports.seen = A.a\<close>.
\<close>

definition cycle_deps :: deps where
  "cycle_deps =
     sample_deps
       [((''/t/a.js'', ''./b''), ''/t/b.js''), ((''/t/b.js'', ''./a''), ''/t/a.js'')]
       [(''/t/a.js'', Wrapper [SExport ''a'' (Lit (VNum 1)), SRequire ''B'' ''./b'',
                               SExport ''a'' (Lit (VNum 2))]),
        (''/t/b.js'', Wrapper [SRequire ''A'' ''./a'', SExport ''seen'' (Field ''A'' ''a'')])]"





definition extends :: "runtime \<Rightarrow> runtime \<Rightarrow> bool" where
  "extends s s' =
     (nextModule s \<le> nextModule s' \<and>
      (\<forall>m. m < nextModule s \<longrightarrow> filename (modules s' m) = filename (modules s m)))"







text \<open>\<open>untouched\<close>: the registry of modules, the records and the two allocation counters
  are the same in both runtimes.\<close>

definition untouched :: "runtime \<Rightarrow> runtime \<Rightarrow> bool" where
  "untouched s s' = (moduleRegistry s' = moduleRegistry s \<and> modules s' = modules s \<and>
     nextModule s' = nextModule s \<and> nextObject s' = nextObject s)"


section \<open>Properties\<close>

subsection \<open>Coverage wiring\<close>




subsection \<open>Sequencing\<close>

lemma andThen_Ok:
  "andThen m f = (Ok v, s') \<longleftrightarrow> (\<exists>a s1. m = (Ok a, s1) \<and> f a s1 = (Ok v, s'))"
  by (auto simp: andThen_def split: prod.splits completion.splits)

lemma andThen_Ok_step [simp]: "andThen (Ok a, s) f = f a s"
  by (simp add: andThen_def)

lemma andThen_Throw_step [simp]: "andThen (Throw e, s) f = (Throw e, s)"
  by (simp add: andThen_def)

lemma andThen_OutOfFuel_step [simp]: "andThen (OutOfFuel, s) f = (OutOfFuel, s)"
  by (simp add: andThen_def)

subsection \<open>Registry reset\<close>

text \<open>
  C9. \<open>resetModuleRegistry\<close> replaces the module registry and the mock registry by empty
  mappings and leaves the mock-factory table, the explicit-mock table, the mock-metadata
  cache and the virtual-mock set as they were; of the remaining fields only the sandbox
  global (whose mock functions are cleared) and the record of outgoing calls can differ.
\<close>

theorem C9_resetModuleRegistry_frame:
  "moduleRegistry (snd (resetModuleRegistry s)) = Map.empty \<and>
   mockRegistry (snd (resetModuleRegistry s)) = Map.empty \<and>
   mockFactories (snd (resetModuleRegistry s)) = mockFactories s \<and>
   explicitShouldMock (snd (resetModuleRegistry s)) = explicitShouldMock s \<and>
   mockMetaDataCache (snd (resetModuleRegistry s)) = mockMetaDataCache s \<and>
   virtualMocks (snd (resetModuleRegistry s)) = virtualMocks s \<and>
   snd (resetModuleRegistry s) =
     s\<lparr>moduleRegistry := Map.empty, mockRegistry := Map.empty,
       envGlobal := envGlobal (snd (resetModuleRegistry s)),
       calls := calls (snd (resetModuleRegistry s))\<rparr>"
  by (auto simp: resetModuleRegistry_def Let_def split: option.splits gval.splits)

text \<open>
  C9, witness: a runtime holding a factory, an explicit marking, cached metadata, a
  virtual mock and entries in both registries; after the reset the registries are empty
  and the four tables still hold their entries.
\<close>

theorem C9_resetModuleRegistry_witness:
  "moduleRegistry (snd (resetModuleRegistry
      ((newRuntime False Map.empty)\<lparr>
         moduleRegistry := [''/t/a.js'' \<mapsto> 0], mockRegistry := [''id'' \<mapsto> VNum 1],
         mockFactories := [''id'' \<mapsto> Ret (VNum 1)], explicitShouldMock := [''id'' \<mapsto> True],
         mockMetaDataCache := [''/t/a.js'' \<mapsto> Fresh []], virtualMocks := [''v'' \<mapsto> True]\<rparr>)))
     ''/t/a.js'' = None \<and>
   mockRegistry (snd (resetModuleRegistry
      ((newRuntime False Map.empty)\<lparr>
         moduleRegistry := [''/t/a.js'' \<mapsto> 0], mockRegistry := [''id'' \<mapsto> VNum 1],
         mockFactories := [''id'' \<mapsto> Ret (VNum 1)], explicitShouldMock := [''id'' \<mapsto> True],
         mockMetaDataCache := [''/t/a.js'' \<mapsto> Fresh []], virtualMocks := [''v'' \<mapsto> True]\<rparr>)))
     ''id'' = None \<and>
   mockFactories (snd (resetModuleRegistry
      ((newRuntime False Map.empty)\<lparr>
         moduleRegistry := [''/t/a.js'' \<mapsto> 0], mockRegistry := [''id'' \<mapsto> VNum 1],
         mockFactories := [''id'' \<mapsto> Ret (VNum 1)], explicitShouldMock := [''id'' \<mapsto> True],
         mockMetaDataCache := [''/t/a.js'' \<mapsto> Fresh []], virtualMocks := [''v'' \<mapsto> True]\<rparr>)))
     ''id'' = Some (Ret (VNum 1)) \<and>
   virtualMocks (snd (resetModuleRegistry
      ((newRuntime False Map.empty)\<lparr>
         moduleRegistry := [''/t/a.js'' \<mapsto> 0], mockRegistry := [''id'' \<mapsto> VNum 1],
         mockFactories := [''id'' \<mapsto> Ret (VNum 1)], explicitShouldMock := [''id'' \<mapsto> True],
         mockMetaDataCache := [''/t/a.js'' \<mapsto> Fresh []], virtualMocks := [''v'' \<mapsto> True]\<rparr>)))
     ''v'' = Some True"
  using C9_resetModuleRegistry_frame
    [of "(newRuntime False Map.empty)\<lparr>
         moduleRegistry := [''/t/a.js'' \<mapsto> 0], mockRegistry := [''id'' \<mapsto> VNum 1],
         mockFactories := [''id'' \<mapsto> Ret (VNum 1)], explicitShouldMock := [''id'' \<mapsto> True],
         mockMetaDataCache := [''/t/a.js'' \<mapsto> Fresh []], virtualMocks := [''v'' \<mapsto> True]\<rparr>"]
  by simp

subsection \<open>The jest object\<close>

text \<open>
  C8 (as amended). Each of enableAutomock, disableAutomock, mock, setMock, unmock,
  deepUnmock, resetModuleRegistry, useFakeTimers and useRealTimers, when it returns,
  returns the jest object it was called on. The timer-control methods clearAllTimers,
  runAllTicks, runAllImmediates, runAllTimers and runOnlyPendingTimers return what the
  environment's fake-timer method returns.
\<close>

theorem C8_chainable_methods_return_facade:
  "(chainable c \<longrightarrow> fst (jestCall d reenter self from c s) = Ok v \<longrightarrow> v = VFacade self) \<and>
   fst (jestCall d reenter self from (Timer m) s) = Ok (fakeTimersResult d m)"
  by (cases c)
     (auto simp: jestCall_def andThen_def split: prod.splits completion.splits option.splits)

text \<open>C8, witness: \<open>disableAutomock\<close> on the jest object 3 returns that object.\<close>

theorem C8_chainable_witness:
  "chainable DisableAutomock \<and>
   fst (jestCall (sample_deps [] []) (run 0 (sample_deps [] [])) 3 ''/t/a.js'' DisableAutomock
          (newRuntime True Map.empty)) = Ok (VFacade 3)"
  using C8_chainable_methods_return_facade
    [where c = DisableAutomock and v = "VFacade 3" and d = "sample_deps [] []"
       and reenter = "run 0 (sample_deps [] [])" and self = 3 and ?from = "''/t/a.js''"
       and s = "newRuntime True Map.empty"]
  by (simp add: jestCall_def)

text \<open>
  C8, counterexample to the claim as worded: with fake timers whose \<open>runAllTimers\<close>
  returns \<open>undefined\<close>, the facade's \<open>runAllTimers\<close> returns \<open>undefined\<close>, not the facade.
\<close>

theorem C8_runAllTimers_counterexample:
  "fst (jestCall (sample_deps [] []) (run 0 (sample_deps [] [])) 3 ''/t/a.js''
          (Timer RunAllTimers) (newRuntime True Map.empty)) = Ok VUndefined \<and>
   VUndefined \<noteq> VFacade 3"
  by (simp add: jestCall_def sample_deps_def)

subsection \<open>Sandbox invocation\<close>

text \<open>
  C2 (as amended). \<open>execModule\<close> saves the currently-executing-path and the
  currently-executing-manual-mock scalars on entry and sets both to the record's file
  name before the wrapper runs; whenever it returns (also at once, for a disposed
  environment) both scalars have the values they had on entry. It has no handler: when
  the transformation or the script evaluation raises, the exception leaves both scalars
  set to the record's file name.
\<close>

theorem C2_execModule_scalars:
  "(fst (execModule d reenter m s) = Ok v \<longrightarrow>
      currentlyExecutingModulePath (snd (execModule d reenter m s)) =
        currentlyExecutingModulePath s \<and>
      isCurrentlyExecutingManualMock (snd (execModule d reenter m s)) =
        isCurrentlyExecutingManualMock s) \<and>
   (envGlobal s \<noteq> None \<and> coverageReady d (filename (modules s m)) s \<and>
    scripts d (filename (modules s m)) = Wrapper body \<longrightarrow>
      (\<exists>c s4. currentlyExecutingModulePath s4 = filename (modules s m) \<and>
              isCurrentlyExecutingManualMock s4 = Some (filename (modules s m)) \<and>
              execModule d reenter m s =
                andThen (execStmts d reenter c Map.empty body s4) (\<lambda>u s5.
                  (Ok VUndefined,
                   s5\<lparr>isCurrentlyExecutingManualMock := isCurrentlyExecutingManualMock s,
                      currentlyExecutingModulePath := currentlyExecutingModulePath s\<rparr>)))) \<and>
   (envGlobal s \<noteq> None \<and> coverageReady d (filename (modules s m)) s \<and>
    (\<forall>body. scripts d (filename (modules s m)) \<noteq> Wrapper body) \<longrightarrow>
      (\<exists>e. fst (execModule d reenter m s) = Throw e) \<and>
      currentlyExecutingModulePath (snd (execModule d reenter m s)) = filename (modules s m) \<and>
      isCurrentlyExecutingManualMock (snd (execModule d reenter m s)) =
        Some (filename (modules s m)))"
proof (intro conjI impI)
  assume ok: "fst (execModule d reenter m s) = Ok v"
  then obtain s' where e: "execModule d reenter m s = (Ok v, s')"
    by (cases "execModule d reenter m s") auto
  from e have "currentlyExecutingModulePath s' = currentlyExecutingModulePath s \<and>
      isCurrentlyExecutingManualMock s' = isCurrentlyExecutingManualMock s"
    by (auto simp: execModule_def Let_def andThen_Ok split: if_splits script.splits)
  then show "currentlyExecutingModulePath (snd (execModule d reenter m s)) =
        currentlyExecutingModulePath s"
    and "isCurrentlyExecutingManualMock (snd (execModule d reenter m s)) =
        isCurrentlyExecutingManualMock s"
    using e by simp_all
next
  assume a: "envGlobal s \<noteq> None \<and> coverageReady d (filename (modules s m)) s \<and>
    scripts d (filename (modules s m)) = Wrapper body"
  let ?f = "filename (modules s m)"
  let ?s1 = "if shouldCollectCoverage d ?f \<and> ?f \<notin> coverageCollectors s
             then s\<lparr>coverageCollectors := insert ?f (coverageCollectors s)\<rparr> else s"
  let ?s3 = "?s1\<lparr>currentlyExecutingModulePath := ?f,
               isCurrentlyExecutingManualMock := Some ?f,
               modules := (modules ?s1)(m := (modules ?s1 m)\<lparr>
                 children := Some [], parent := Some ''mockParent'',
                 paths := Some (getModulePaths d (dirname d ?f)), require := Some ?f\<rparr>)\<rparr>"
  let ?c = "\<lparr>c_module = m, c_exports = exports (modules ?s3 m), c_filename = ?f,
            c_jest = nextFacade ?s3\<rparr>"
  let ?s4 = "?s3\<lparr>nextFacade := Suc (nextFacade ?s3), calls := calls ?s3 @ [EvWrapper ?f]\<rparr>"
  have "execModule d reenter m s =
          andThen (execStmts d reenter ?c Map.empty body ?s4) (\<lambda>u s5.
            (Ok VUndefined,
             s5\<lparr>isCurrentlyExecutingManualMock := isCurrentlyExecutingManualMock s,
                currentlyExecutingModulePath := currentlyExecutingModulePath s\<rparr>))"
    using a by (auto simp: execModule_def Let_def coverageReady_def)
  moreover have "currentlyExecutingModulePath ?s4 = ?f"
    and "isCurrentlyExecutingManualMock ?s4 = Some ?f" by simp_all
  ultimately show "\<exists>c s4. currentlyExecutingModulePath s4 = filename (modules s m) \<and>
              isCurrentlyExecutingManualMock s4 = Some (filename (modules s m)) \<and>
              execModule d reenter m s =
                andThen (execStmts d reenter c Map.empty body s4) (\<lambda>u s5.
                  (Ok VUndefined,
                   s5\<lparr>isCurrentlyExecutingManualMock := isCurrentlyExecutingManualMock s,
                      currentlyExecutingModulePath := currentlyExecutingModulePath s\<rparr>))"
    by blast
next
  assume a: "envGlobal s \<noteq> None \<and> coverageReady d (filename (modules s m)) s \<and>
    (\<forall>body. scripts d (filename (modules s m)) \<noteq> Wrapper body)"
  then show "\<exists>e. fst (execModule d reenter m s) = Throw e"
    and "currentlyExecutingModulePath (snd (execModule d reenter m s)) = filename (modules s m)"
    and "isCurrentlyExecutingManualMock (snd (execModule d reenter m s)) =
        Some (filename (modules s m))"
    by (auto simp: execModule_def Let_def coverageReady_def split: script.splits)
qed

text \<open>
  C2, witness: executing a file whose wrapper sets one export returns, with both scalars
  back at the constructor's values.
\<close>

theorem C2_execModule_scalars_witness:
  "fst (execModule plain_deps (run 0 plain_deps) 0 fresh_a) = Ok VUndefined \<and>
   currentlyExecutingModulePath (snd (execModule plain_deps (run 0 plain_deps) 0 fresh_a)) = [] \<and>
   isCurrentlyExecutingManualMock (snd (execModule plain_deps (run 0 plain_deps) 0 fresh_a)) = None"
proof -
  have ok: "fst (execModule plain_deps (run 0 plain_deps) 0 fresh_a) = Ok VUndefined"
    by (simp add: execModule_def plain_deps_def sample_deps_def fresh_a_def newLocalModule_def
        newRuntime_def Let_def shouldCollectCoverage_def execStmt_def evalExpr_def)
  have before: "currentlyExecutingModulePath fresh_a = []"
    "isCurrentlyExecutingManualMock fresh_a = None"
    by (simp_all add: fresh_a_def newLocalModule_def newRuntime_def)
  from C2_execModule_scalars [where d = plain_deps and reenter = "run 0 plain_deps" and m = 0
      and s = fresh_a and v = VUndefined] ok before
  show ?thesis by simp
qed

text \<open>
  C2, counterexample to the claim as worded: when the wrapper throws, and when the
  transformer throws, \<open>execModule\<close> leaves both scalars at the file name, although they
  were the empty path and \<open>null\<close> on entry.
\<close>

theorem C2_exception_leaves_scalars_counterexample:
  "currentlyExecutingModulePath fresh_a = [] \<and>
   isCurrentlyExecutingManualMock fresh_a = None \<and>
   fst (execModule thrower_deps (run 0 thrower_deps) 0 fresh_a) = Throw (UserThrown (VStr ''boom'')) \<and>
   currentlyExecutingModulePath (snd (execModule thrower_deps (run 0 thrower_deps) 0 fresh_a)) =
     ''/t/a.js'' \<and>
   isCurrentlyExecutingManualMock (snd (execModule thrower_deps (run 0 thrower_deps) 0 fresh_a)) =
     Some ''/t/a.js'' \<and>
   currentlyExecutingModulePath fresh_missing = [] \<and>
   isCurrentlyExecutingManualMock fresh_missing = None \<and>
   fst (execModule thrower_deps (run 0 thrower_deps) 0 fresh_missing) =
     Throw (TransformFailure ''/t/missing.js'') \<and>
   currentlyExecutingModulePath (snd (execModule thrower_deps (run 0 thrower_deps) 0 fresh_missing)) =
     ''/t/missing.js'' \<and>
   isCurrentlyExecutingManualMock (snd (execModule thrower_deps (run 0 thrower_deps) 0 fresh_missing)) =
     Some ''/t/missing.js''"
  by (simp add: execModule_def thrower_deps_def sample_deps_def fresh_a_def fresh_missing_def
      newLocalModule_def newRuntime_def Let_def shouldCollectCoverage_def execStmt_def)

subsection \<open>The normaliser\<close>

lemma priv_resolveModule_state: "priv_resolveModule d from to s = (r, s') \<Longrightarrow> s' = s"
  by (auto simp: priv_resolveModule_def split: if_splits option.splits)


lemma normalizeID_result:
  assumes "normalizeID d from n s = (r, s')"
  shows "s' = s\<lparr>normalizedIDCache := normalizedIDCache s'\<rparr> \<and>
         (\<forall>ident. r = Ok ident \<longrightarrow>
            ident \<noteq> [] \<and> normalizedIDCache s' (from @ delimiter d @ orEmpty n) = Some ident)"
  using assms
  by (auto simp: normalizeID_def Let_def storeID_def andThen_def truthyS_def orEmpty_def
      priv_resolveModule_def
      split: if_splits option.splits prod.splits completion.splits)

lemma normalizeID_frame:
  assumes "normalizeID d from n s = (r, s')"
  shows "\<exists>c. s' = s\<lparr>normalizedIDCache := c\<rparr>"
  using normalizeID_result [OF assms] by blast






subsection \<open>The mock-policy oracle\<close>



subsection \<open>The mock loader and mock factories\<close>









subsection \<open>Evaluation of the worked scenarios\<close>

lemmas eval_defs = generateMock_def requireModule_def execModule_def requireMock_def
  requireModuleOrMock_def shouldMock_def jestCall_def setMock_def normalizeID_def
  priv_resolveModule_def storeID_def getVirtualMockPath_def newLocalModule_def setExports_def
  produce_def generateFromMetadata_def emptyMetadata_def execStmt_def evalExpr_def
  shouldCollectCoverage_def resetModuleRegistry_def dispatch_def
  sample_deps_def sample_dirname_def sample_basename_def sample_extname_def newRuntime_def
  truthyS_def orEmpty_def matchesOpt_def Let_def

subsection \<open>The automock synthesiser\<close>

lemma generateFromMetadata_registries:
  "generateFromMetadata md s = (r, s') \<Longrightarrow>
     moduleRegistry s' = moduleRegistry s \<and> mockRegistry s' = mockRegistry s"
  by (auto simp: generateFromMetadata_def produce_def split: producer.splits prod.splits)

text \<open>
  C6 (as amended). Whenever \<open>generateMock\<close> returns, the module registry and the mock
  registry are those the caller had before the call; the same holds when it fails
  because the mock library yields no metadata for the exports. It has no handler: when
  the isolated \<open>requireModule\<close> raises, the exception leaves the runtime as that call left
  it, with the scratch registries in place of the caller's.
\<close>

theorem C6_generateMock_registries:
  "(fst (generateMock d r from x s) = Ok v \<longrightarrow>
      moduleRegistry (snd (generateMock d r from x s)) = moduleRegistry s \<and>
      mockRegistry (snd (generateMock d r from x s)) = mockRegistry s) \<and>
   (priv_resolveModule d from (Some x) s = (Ok p, s) \<and> mockMetaDataCache s p = None \<longrightarrow>
      (\<forall>e s3. requireModule d r from (Some x) (isolated p s) = (Ok e, s3) \<and>
               getMetadata d (objects s3) e = None \<longrightarrow>
         fst (generateMock d r from x s) = Throw (MetadataFailure p) \<and>
         moduleRegistry (snd (generateMock d r from x s)) = moduleRegistry s \<and>
         mockRegistry (snd (generateMock d r from x s)) = mockRegistry s) \<and>
      (\<forall>e s3. requireModule d r from (Some x) (isolated p s) = (Throw e, s3) \<longrightarrow>
         generateMock d r from x s = (Throw e, s3)))"
proof (intro conjI impI allI)
  assume ok: "fst (generateMock d r from x s) = Ok v"
  then obtain s' where g: "generateMock d r from x s = (Ok v, s')"
    by (cases "generateMock d r from x s") auto
  from g have "moduleRegistry s' = moduleRegistry s \<and> mockRegistry s' = mockRegistry s"
    by (auto simp: generateMock_def andThen_Ok Let_def
        dest!: priv_resolveModule_state generateFromMetadata_registries
        split: option.splits)
  then show "moduleRegistry (snd (generateMock d r from x s)) = moduleRegistry s"
    and "mockRegistry (snd (generateMock d r from x s)) = mockRegistry s"
    using g by simp_all
next
  fix e s3
  assume a: "priv_resolveModule d from (Some x) s = (Ok p, s) \<and> mockMetaDataCache s p = None"
    and b: "requireModule d r from (Some x) (isolated p s) = (Ok e, s3) \<and>
               getMetadata d (objects s3) e = None"
  have g: "generateMock d r from x s =
      (Throw (MetadataFailure p), s3\<lparr>mockRegistry := mockRegistry s, moduleRegistry := moduleRegistry s\<rparr>)"
    using a b by (simp add: generateMock_def Let_def isolated_def)
  show "fst (generateMock d r from x s) = Throw (MetadataFailure p)"
    and "moduleRegistry (snd (generateMock d r from x s)) = moduleRegistry s"
    and "mockRegistry (snd (generateMock d r from x s)) = mockRegistry s"
    unfolding g by simp_all
next
  fix e s3
  assume a: "priv_resolveModule d from (Some x) s = (Ok p, s) \<and> mockMetaDataCache s p = None"
    and b: "requireModule d r from (Some x) (isolated p s) = (Throw e, s3)"
  show "generateMock d r from x s = (Throw e, s3)"
    using a b by (simp add: generateMock_def Let_def isolated_def)
qed


text \<open>
  C6, witness: generating the automock of \<open>./b\<close> from \<open>/t/x.js\<close> returns, and the entries
  the caller had in both registries are still there, while the isolated load of
  \<open>/t/b.js\<close> left no entry behind.
\<close>

theorem C6_generateMock_registries_witness:
  "fst (generateMock b_deps (run 0 b_deps) ''/t/x.js'' ''./b'' seeded) = Ok (VRef 1) \<and>
   moduleRegistry (snd (generateMock b_deps (run 0 b_deps) ''/t/x.js'' ''./b'' seeded))
     ''/t/other.js'' = Some 5 \<and>
   moduleRegistry (snd (generateMock b_deps (run 0 b_deps) ''/t/x.js'' ''./b'' seeded))
     ''/t/b.js'' = None \<and>
   mockRegistry (snd (generateMock b_deps (run 0 b_deps) ''/t/x.js'' ''./b'' seeded))
     ''id'' = Some (VNum 1)"
proof -
  have ok: "fst (generateMock b_deps (run 0 b_deps) ''/t/x.js'' ''./b'' seeded) = Ok (VRef 1)"
    by (simp add: eval_defs seeded_def b_deps_def)
  from C6_generateMock_registries [where d = b_deps and r = "run 0 b_deps"
      and ?from = "''/t/x.js''" and x = "''./b''" and s = seeded and v = "VRef 1"] ok
  have "moduleRegistry (snd (generateMock b_deps (run 0 b_deps) ''/t/x.js'' ''./b'' seeded)) =
          moduleRegistry seeded"
    and "mockRegistry (snd (generateMock b_deps (run 0 b_deps) ''/t/x.js'' ''./b'' seeded)) =
          mockRegistry seeded"
    by simp_all
  then show ?thesis using ok by (simp add: seeded_def)
qed

text \<open>
  C6, counterexample to the claim as worded: the real module throws while it is
  executed in isolation; \<open>generateMock\<close> propagates the exception, and afterwards the
  caller's entries are gone from both registries and the module registry holds the
  placeholder of the failed module.
\<close>

theorem C6_exception_leaves_scratch_registries_counterexample:
  "fst (generateMock throw_a_deps (run 0 throw_a_deps) ''/t/x.js'' ''./a'' seeded) =
     Throw (UserThrown (VStr ''boom'')) \<and>
   moduleRegistry seeded ''/t/other.js'' = Some 5 \<and>
   mockRegistry seeded ''id'' = Some (VNum 1) \<and>
   moduleRegistry (snd (generateMock throw_a_deps (run 0 throw_a_deps) ''/t/x.js'' ''./a'' seeded))
     ''/t/other.js'' = None \<and>
   moduleRegistry (snd (generateMock throw_a_deps (run 0 throw_a_deps) ''/t/x.js'' ''./a'' seeded))
     ''/t/a.js'' = Some 0 \<and>
   mockRegistry (snd (generateMock throw_a_deps (run 0 throw_a_deps) ''/t/x.js'' ''./a'' seeded))
     ''id'' = None"
  by (simp add: eval_defs seeded_def throw_a_deps_def)

subsection \<open>The loader\<close>

lemma storeID_shape:
  "\<exists>ident c. storeID d key ty a m s = (Ok ident, s\<lparr>normalizedIDCache := c\<rparr>)"
  by (simp add: storeID_def Let_def) (rule exI, rule refl)

lemma normalizeID_resolvable:
  assumes "resolvesTo d from name p \<or> isCoreModule d (orEmpty name)"
  shows "\<exists>ident c. normalizeID d from name t = (Ok ident, t\<lparr>normalizedIDCache := c\<rparr>)"
proof (cases "truthyS (normalizedIDCache t (from @ delimiter d @ orEmpty name))")
  case True
  then have "normalizeID d from name t =
      (Ok (orEmpty (normalizedIDCache t (from @ delimiter d @ orEmpty name))),
       t\<lparr>normalizedIDCache := normalizedIDCache t\<rparr>)"
    by (simp add: normalizeID_def Let_def)
  then show ?thesis by blast
next
  case False
  show ?thesis
  proof (cases "isCoreModule d (orEmpty name)")
    case True
    then show ?thesis using False by (simp add: normalizeID_def Let_def storeID_shape)
  next
    case nc: False
    then have res: "resolvesTo d from name p" using assms by simp
    have "\<exists>q. priv_resolveModule d from (Some (orEmpty name)) t = (Ok q, t)"
      using res by (auto simp: resolvesTo_def priv_resolveModule_def truthyS_def orEmpty_def
          split: if_splits option.splits)
    then obtain q where pr: "priv_resolveModule d from (Some (orEmpty name)) t = (Ok q, t)" ..
    show ?thesis
      by (cases "\<not> truthyS (getModule d (orEmpty name)) \<and>
                 \<not> truthyS (getMockModule d (orEmpty name))";
          cases "orEmpty name \<noteq> [] \<and>
                 virtualMocks t (getVirtualMockPath d from (orEmpty name)) \<noteq> None")
         (simp_all add: normalizeID_def Let_def False nc pr storeID_shape)
  qed
qed

lemma resolvesTo_priv:
  "resolvesTo d from name p \<Longrightarrow> priv_resolveModule d from name t = (Ok p, t)"
  by (auto simp: resolvesTo_def priv_resolveModule_def split: if_splits)

lemma resolvesTo_not_core:
  "resolvesTo d from name p \<Longrightarrow> (truthyS name \<and> isCoreModule d (orEmpty name)) = False"
  by (auto simp: resolvesTo_def split: if_splits)

lemma not_legacy_path0:
  "\<not> legacyMockCandidate d name \<Longrightarrow>
   (\<not> truthyS (if truthyS name then getModule d (orEmpty name) else None) \<and>
    truthyS (if truthyS name then getMockModule d (orEmpty name) else None) \<and> A \<and> B) = False"
  by (auto simp: legacyMockCandidate_def truthyS_def)

lemma requireModule_registered:
  assumes res: "resolvesTo d from name p" and nl: "\<not> legacyMockCandidate d name"
    and reg: "moduleRegistry t p = Some m"
  shows "\<exists>c. requireModule d r from name t =
           (Ok (exports (modules t m)), t\<lparr>normalizedIDCache := c\<rparr>)"
proof -
  from normalizeID_resolvable [of d "from" name p t] res
  obtain ident c where n: "normalizeID d from name t = (Ok ident, t\<lparr>normalizedIDCache := c\<rparr>)"
    by blast
  have "requireModule d r from name t =
           (Ok (exports (modules t m)), t\<lparr>normalizedIDCache := c\<rparr>)"
    using reg
    by (simp add: requireModule_def Let_def n not_legacy_path0 [OF nl] resolvesTo_priv [OF res]
        resolvesTo_not_core [OF res] truthyS_def [of None])
  then show ?thesis by blast
qed

lemma requireModule_unregistered:
  assumes res: "resolvesTo d from name p" and nl: "\<not> legacyMockCandidate d name"
    and n: "normalizeID d from name s = (Ok ident, s0)"
    and reg: "moduleRegistry s p = None"
    and ex: "extname d p \<noteq> ''.json''" "extname d p \<noteq> ''.node''"
  shows "requireModule d r from name s =
           andThen (execModule d r (nextModule s0) (withPlaceholder p s0)) (\<lambda>u. readExports p)"
proof -
  from normalizeID_frame [OF n] obtain c where s0: "s0 = s\<lparr>normalizedIDCache := c\<rparr>" ..
  have rd: "readExports p = (\<lambda>s. case moduleRegistry s p of
                     None \<Rightarrow> (Throw (TypeError ''exports''), s)
                   | Some m \<Rightarrow> (Ok (exports (modules s m)), s))"
    by (rule ext) (simp add: readExports_def)
  show ?thesis using reg ex unfolding rd
    by (simp add: requireModule_def Let_def n not_legacy_path0 [OF nl] resolvesTo_priv [OF res]
        resolvesTo_not_core [OF res] truthyS_def [of None] s0 withPlaceholder_def
        newLocalModule_def)
qed

text \<open>
  C3 (as amended). Let \<open>requireModule(from, name)\<close> resolve to the path \<open>p\<close> (not a core
  module, not picked by the legacy manual-mock rule), let the module registry have no
  entry for \<open>p\<close>, and let \<open>p\<close> be neither a JSON nor a native file. Then the call is the
  execution of a new record followed by the read of the registry entry's exports, and
  the execution starts from a runtime in which the registry maps \<open>p\<close> to that record,
  whose exports is a new empty object. And in every runtime whose registry has an entry
  for \<open>p\<close>, a require that resolves to \<open>p\<close> returns the exports of that entry's record and
  changes nothing but the identifier memo: no wrapper is invoked. So a re-entrant
  require made while the placeholder is still registered gets the partially populated
  exports.
\<close>

theorem C3_placeholder_registered_before_execution:
  "(resolvesTo d from name p \<and> \<not> legacyMockCandidate d name \<and> moduleRegistry s p = None \<and>
    extname d p \<noteq> ''.json'' \<and> extname d p \<noteq> ''.node'' \<longrightarrow>
      requireModule d r from name s =
        andThen (execModule d r (nextModule s)
                   (withPlaceholder p (snd (normalizeID d from name s))))
          (\<lambda>u. readExports p) \<and>
      moduleRegistry (withPlaceholder p (snd (normalizeID d from name s))) p =
        Some (nextModule s) \<and>
      filename (modules (withPlaceholder p (snd (normalizeID d from name s))) (nextModule s)) = p \<and>
      exports (modules (withPlaceholder p (snd (normalizeID d from name s))) (nextModule s)) =
        VRef (nextObject s) \<and>
      objects (withPlaceholder p (snd (normalizeID d from name s))) (nextObject s) = Map.empty) \<and>
   (resolvesTo d from' name' p \<and> \<not> legacyMockCandidate d name' \<and>
    moduleRegistry t p = Some m \<longrightarrow>
      (\<exists>c. requireModule d r' from' name' t =
             (Ok (exports (modules t m)), t\<lparr>normalizedIDCache := c\<rparr>)))"
proof (intro conjI impI)
  assume a: "resolvesTo d from name p \<and> \<not> legacyMockCandidate d name \<and>
    moduleRegistry s p = None \<and> extname d p \<noteq> ''.json'' \<and> extname d p \<noteq> ''.node''"
  from normalizeID_resolvable [of d "from" name p s] a
  obtain ident c where n: "normalizeID d from name s = (Ok ident, s\<lparr>normalizedIDCache := c\<rparr>)"
    by blast
  have s0: "snd (normalizeID d from name s) = s\<lparr>normalizedIDCache := c\<rparr>"
    using n by simp
  show "requireModule d r from name s =
        andThen (execModule d r (nextModule s)
                   (withPlaceholder p (snd (normalizeID d from name s))))
          (\<lambda>u. readExports p)"
    using requireModule_unregistered [OF _ _ n, of p r] a unfolding s0 by simp
  show "moduleRegistry (withPlaceholder p (snd (normalizeID d from name s))) p =
        Some (nextModule s)"
    and "filename (modules (withPlaceholder p (snd (normalizeID d from name s))) (nextModule s)) = p"
    and "exports (modules (withPlaceholder p (snd (normalizeID d from name s))) (nextModule s)) =
        VRef (nextObject s)"
    and "objects (withPlaceholder p (snd (normalizeID d from name s))) (nextObject s) = Map.empty"
    unfolding s0 by (simp_all add: withPlaceholder_def newLocalModule_def)
next
  assume "resolvesTo d from' name' p \<and> \<not> legacyMockCandidate d name' \<and>
    moduleRegistry t p = Some m"
  then show "\<exists>c. requireModule d r' from' name' t =
             (Ok (exports (modules t m)), t\<lparr>normalizedIDCache := c\<rparr>)"
    using requireModule_registered [of d from' name' p t m r'] by blast
qed

text \<open>
  C3, witness (scenario S2): requiring \<open>/t/a.js\<close> in a new runtime registers record 0
  with the empty object 0 before executing it; with that placeholder registered, the
  require of \<open>./a\<close> from \<open>/t/b.js\<close> returns object 0. The whole load returns object 0,
  invokes each wrapper once, and \<open>/t/b.js\<close> has seen \<open>a = 1\<close>, the value before \<open>/t/a.js\<close>
  assigned 2.
\<close>

theorem C3_cycle_witness:
  "moduleRegistry (withPlaceholder ''/t/a.js''
      (snd (normalizeID cycle_deps ''/t/a.js'' None (newRuntime False Map.empty)))) ''/t/a.js'' =
     Some 0 \<and>
   fst (requireModule cycle_deps (run 0 cycle_deps) ''/t/b.js'' (Some ''./a'')
      (withPlaceholder ''/t/a.js''
        (snd (normalizeID cycle_deps ''/t/a.js'' None (newRuntime False Map.empty))))) =
     Ok (VRef 0) \<and>
   fst (run 3 cycle_deps (RequireModule ''/t/a.js'' None) (newRuntime False Map.empty)) =
     Ok (VRef 0) \<and>
   objects (snd (run 3 cycle_deps (RequireModule ''/t/a.js'' None) (newRuntime False Map.empty)))
     1 ''seen'' = Some (VNum 1) \<and>
   objects (snd (run 3 cycle_deps (RequireModule ''/t/a.js'' None) (newRuntime False Map.empty)))
     0 ''a'' = Some (VNum 2) \<and>
   calls (snd (run 3 cycle_deps (RequireModule ''/t/a.js'' None) (newRuntime False Map.empty))) =
     [EvWrapper ''/t/a.js'', EvWrapper ''/t/b.js'']"
proof -
  let ?s = "newRuntime False Map.empty"
  let ?t = "withPlaceholder ''/t/a.js'' (snd (normalizeID cycle_deps ''/t/a.js'' None ?s))"
  have h1: "resolvesTo cycle_deps ''/t/a.js'' None ''/t/a.js'' \<and>
      \<not> legacyMockCandidate cycle_deps None \<and> moduleRegistry ?s ''/t/a.js'' = None \<and>
      extname cycle_deps ''/t/a.js'' \<noteq> ''.json'' \<and> extname cycle_deps ''/t/a.js'' \<noteq> ''.node''"
    by (simp add: resolvesTo_def legacyMockCandidate_def truthyS_def cycle_deps_def
        sample_deps_def sample_extname_def sample_basename_def newRuntime_def)
  have h2: "resolvesTo cycle_deps ''/t/b.js'' (Some ''./a'') ''/t/a.js'' \<and>
      \<not> legacyMockCandidate cycle_deps (Some ''./a'')"
    by (simp add: resolvesTo_def legacyMockCandidate_def truthyS_def orEmpty_def cycle_deps_def
        sample_deps_def)
  note inst = C3_placeholder_registered_before_execution [where d = cycle_deps
      and ?from = "''/t/a.js''" and name = None and p = "''/t/a.js''" and s = ?s
      and from' = "''/t/b.js''" and name' = "Some ''./a''" and t = ?t and m = 0
      and r = "run 0 cycle_deps" and r' = "run 0 cycle_deps"]
  have reg: "moduleRegistry ?t ''/t/a.js'' = Some 0"
    and ex: "exports (modules ?t 0) = VRef 0"
    using inst h1 by (simp_all add: newRuntime_def)
  from inst h2 reg obtain c where
    "requireModule cycle_deps (run 0 cycle_deps) ''/t/b.js'' (Some ''./a'') ?t =
       (Ok (exports (modules ?t 0)), ?t\<lparr>normalizedIDCache := c\<rparr>)"
    by blast
  then have re: "fst (requireModule cycle_deps (run 0 cycle_deps) ''/t/b.js'' (Some ''./a'') ?t) =
      Ok (VRef 0)"
    using ex by simp
  have whole:
    "fst (run 3 cycle_deps (RequireModule ''/t/a.js'' None) ?s) = Ok (VRef 0) \<and>
     objects (snd (run 3 cycle_deps (RequireModule ''/t/a.js'' None) ?s)) 1 ''seen'' =
       Some (VNum 1) \<and>
     objects (snd (run 3 cycle_deps (RequireModule ''/t/a.js'' None) ?s)) 0 ''a'' =
       Some (VNum 2) \<and>
     calls (snd (run 3 cycle_deps (RequireModule ''/t/a.js'' None) ?s)) =
       [EvWrapper ''/t/a.js'', EvWrapper ''/t/b.js'']"
    by (simp add: eval_defs cycle_deps_def numeral_3_eq_3)
  show ?thesis using reg re whole by simp
qed

text \<open>
  C3, counterexample to the claim as worded: the two modules of scenario S2, which
  require each other, loaded with automock switched on. \<open>/t/a.js\<close> is being executed, with
  its placeholder registered, when its \<open>require("./b")\<close> makes \<open>generateMock\<close> execute
  \<open>/t/b.js\<close> inside empty registries; the \<open>require("./a")\<close> of \<open>/t/b.js\<close> is mocked as well,
  and generating that mock requires \<open>/t/a.js\<close> inside empty registries again, where no
  placeholder is found: the wrapper of \<open>/t/a.js\<close> is invoked a second time during its own
  execution.
\<close>

theorem C3_isolated_reentry_executes_again_counterexample:
  "fst (run 4 cycle_deps (RequireModule ''/t/a.js'' None) (newRuntime True Map.empty)) =
     Ok (VRef 0) \<and>
   calls (snd (run 4 cycle_deps (RequireModule ''/t/a.js'' None) (newRuntime True Map.empty))) =
     [EvWrapper ''/t/a.js'', EvWrapper ''/t/b.js'', EvWrapper ''/t/a.js'']"
  by (simp add: eval_defs cycle_deps_def numeral_eq_Suc)








subsection \<open>Loads after a registry reset create new exports objects\<close>

lemma untouched_refl [simp]: "untouched s s"
  by (simp add: untouched_def)

lemma untouched_trans: "untouched s s' \<Longrightarrow> untouched s' s'' \<Longrightarrow> untouched s s''"
  by (simp add: untouched_def)

lemma extends_refl [simp]: "extends s s"
  by (simp add: extends_def)




lemma priv_resolveModule_untouched: "priv_resolveModule d from n s = (r, s') \<Longrightarrow> untouched s s'"
  by (auto dest: priv_resolveModule_state)










































end
